theory Spec2Isabelle
  imports Main
begin

section \<open>Python strings\<close>

text \<open>
  The script \<^verbatim>\<open>rt.py\<close> handles text only: command lines, the output of
  \<^verbatim>\<open>VBoxManage\<close> (decoded as Latin-1, one character per byte) and the output of
  remote commands. A Python \<^verbatim>\<open>str\<close> is modelled as a \<^typ>\<open>string\<close>, one
  \<^typ>\<open>char\<close> per code point below 256. The helpers below are the \<^verbatim>\<open>str\<close>
  methods the script calls.
\<close>

definition nl :: char where
  "nl = CHR 0x0A"

definition dquote :: char where
  "dquote = CHR 0x22"

definition squote :: char where
  "squote = CHR 0x27"

text \<open>
  \<^verbatim>\<open>str.isspace\<close> on one character: tab, line feed, vertical tab, form feed,
  carriage return, the four separators 0x1C..0x1F, space, NEL (0x85) and the no-break
  space (0xA0) are the white space of the first 256 code points.
\<close>

definition py_isspace :: "char \<Rightarrow> bool" where
  "py_isspace c = ((of_char c :: nat) \<in> {9, 10, 11, 12, 13, 28, 29, 30, 31, 32, 133, 160})"

definition py_lstrip :: "string \<Rightarrow> string" where
  "py_lstrip s = dropWhile py_isspace s"

definition py_rstrip :: "string \<Rightarrow> string" where
  "py_rstrip s = rev (dropWhile py_isspace (rev s))"

definition py_strip :: "string \<Rightarrow> string" where
  "py_strip s = py_rstrip (py_lstrip s)"

text \<open>
  \<^verbatim>\<open>s.split(sep)\<close> for a one-character separator: the pieces between the
  separators, empty pieces included; the empty string gives one empty piece.
\<close>

fun py_split :: "char \<Rightarrow> string \<Rightarrow> string \<Rightarrow> string list" where
  "py_split sep acc [] = [acc]"
| "py_split sep acc (c # cs) =
     (if c = sep then acc # py_split sep [] cs else py_split sep (acc @ [c]) cs)"

text \<open>\<^verbatim>\<open>sep.join(xs)\<close>.\<close>

fun py_join :: "string \<Rightarrow> string list \<Rightarrow> string" where
  "py_join sep [] = []"
| "py_join sep [x] = x"
| "py_join sep (x # y # ys) = x @ sep @ py_join sep (y # ys)"

text \<open>
  \<^verbatim>\<open>s.find(c, start)\<close> for a one-character needle: the least index at or after
  \<open>start\<close> that holds \<open>c\<close>, and \<open>-1\<close> when there is none.
\<close>

fun index_of :: "char \<Rightarrow> string \<Rightarrow> nat option" where
  "index_of c [] = None"
| "index_of c (x # xs) = (if x = c then Some 0 else map_option Suc (index_of c xs))"

definition py_find :: "string \<Rightarrow> char \<Rightarrow> nat \<Rightarrow> int" where
  "py_find s c start =
     (case index_of c (drop start s) of
        None \<Rightarrow> - 1
      | Some i \<Rightarrow> int (start + i))"

text \<open>
  \<^verbatim>\<open>s[lo:hi]\<close>: a negative bound counts from the end, and both bounds are clipped
  to the string.
\<close>

definition py_bound :: "string \<Rightarrow> int \<Rightarrow> nat" where
  "py_bound s i =
     (if i < 0 then nat (max 0 (int (length s) + i)) else min (length s) (nat i))"

definition py_slice :: "string \<Rightarrow> int \<Rightarrow> int \<Rightarrow> string" where
  "py_slice s lo hi = take (py_bound s hi - py_bound s lo) (drop (py_bound s lo) s)"

text \<open>\<^verbatim>\<open>sub in s\<close> on strings: \<open>sub\<close> occurs in \<open>s\<close> as a contiguous piece.\<close>

fun py_in :: "string \<Rightarrow> string \<Rightarrow> bool" where
  "py_in sub [] = (sub = [])"
| "py_in sub (c # cs) = (take (length sub) (c # cs) = sub \<or> py_in sub cs)"

section \<open>The list of running VMs\<close>

text \<open>
  \<^verbatim>\<open>is_vm_running\<close> reads the output of \<^verbatim>\<open>VBoxManage list runningvms\<close>, strips it,
  splits it at line feeds and takes from each line
  \<^verbatim>\<open>this_line[1:this_line.find('"', 2)]\<close>.
\<close>

definition running_vm_name :: "string \<Rightarrow> string" where
  "running_vm_name this_line = py_slice this_line 1 (py_find this_line dquote 2)"

definition parse_running_vms :: "string \<Rightarrow> string list" where
  "parse_running_vms out = map running_vm_name (py_split nl [] (py_strip out))"

section \<open>The outside world\<close>

text \<open>
  The script talks to the clock, to local subprocesses (\<^verbatim>\<open>VBoxManage\<close> through the
  shell) and to remote hosts (through \<^verbatim>\<open>fabric\<close>), and it writes to its log file and
  to standard output. The \<open>world\<close> is what it has done so far: the external actions in
  order with their outcomes, the text appended to the log file and the text printed. The \<open>env\<close> answers
  each request; an answer may depend on everything done before it. Subprocesses and
  remote commands are taken to complete.

  The log file is not the script's alone: its file handler sits on the root logger at
  level INFO, so the records that the SSH library under \<^verbatim>\<open>fabric\<close> logs while a
  connection is opened and used (that it is connected, that the authentication went
  through) land in the same file. \<open>ssh_logged\<close> is that text, for the session whose
  actions end the record.
\<close>

record tm =
  tm_year :: nat
  tm_mon :: nat
  tm_mday :: nat
  tm_hour :: nat
  tm_min :: nat
  tm_sec :: nat

text \<open>The \<^verbatim>\<open>Result\<close> object of a remote command.\<close>

record run_result =
  exited :: int
  stdout :: string
  stderr :: string

definition failed :: "run_result \<Rightarrow> bool" where
  "failed r = (exited r \<noteq> 0)"

text \<open>
  An external action with its outcome: a shell command with its return code and
  standard output, the opening of an SSH connection to a host with its success, and a
  remote command (host, command line, the \<^verbatim>\<open>warn\<close> flag) with its result.
\<close>

datatype action =
    Popen string "int \<times> string"
  | SshOpen string bool
  | SshRun string string bool run_result

record world =
  actions :: "action list"
  logfile :: string
  console :: string

record env =
  clock :: "world \<Rightarrow> tm"
  popen :: "world \<Rightarrow> string \<Rightarrow> int \<times> string"
  ssh_open :: "world \<Rightarrow> string \<Rightarrow> bool"
  ssh_run :: "world \<Rightarrow> string \<Rightarrow> string \<Rightarrow> run_result"
  ssh_logged :: "world \<Rightarrow> string"

text \<open>
  What ends a call early: \<^verbatim>\<open>exit()\<close> raises \<^verbatim>\<open>SystemExit\<close>, and nothing in the
  script catches it or any other exception raised outside the \<^verbatim>\<open>try\<close> around
  \<^verbatim>\<open>fabconn.open()\<close>. An uncaught \<^verbatim>\<open>SystemExit(n)\<close> ends the process with status
  \<open>n\<close>, any other uncaught exception with status 1.
\<close>

datatype pyexc = SystemExit int | UnexpectedExit | KeyError | IndexError

fun exit_status :: "pyexc \<Rightarrow> int" where
  "exit_status (SystemExit n) = n"
| "exit_status _ = 1"

type_synonym 'a prog = "world \<Rightarrow> (pyexc + 'a) \<times> world"

text \<open>One statement after another: an exception skips what follows.\<close>

definition and_then :: "'a prog \<Rightarrow> ('a \<Rightarrow> 'b prog) \<Rightarrow> 'b prog" where
  "and_then m f w = (case m w of (Inl x, w') \<Rightarrow> (Inl x, w') | (Inr v, w') \<Rightarrow> f v w')"

subsection \<open>Time stamps\<close>

text \<open>
  \<^verbatim>\<open>time.strftime("%H-%M-%S")\<close> and \<^verbatim>\<open>time.strftime("%Y-%m-%d")\<close>: decimal fields
  padded with zeros, for a clock within its ranges (years of four digits).
\<close>

definition digit :: "nat \<Rightarrow> char" where
  "digit d = ''0123456789'' ! (d mod 10)"

definition two_digits :: "nat \<Rightarrow> string" where
  "two_digits n = [digit (n div 10), digit n]"

definition four_digits :: "nat \<Rightarrow> string" where
  "four_digits n = [digit (n div 1000), digit (n div 100), digit (n div 10), digit n]"

definition strftime_HMS :: "tm \<Rightarrow> string" where
  "strftime_HMS t = two_digits (tm_hour t) @ ''-'' @ two_digits (tm_min t) @ ''-'' @ two_digits (tm_sec t)"

definition strftime_Ymd :: "tm \<Rightarrow> string" where
  "strftime_Ymd t = four_digits (tm_year t) @ ''-'' @ two_digits (tm_mon t) @ ''-'' @ two_digits (tm_mday t)"

section \<open>Constants of the script\<close>

definition VM_INFO :: "(string \<times> (string \<times> string) list) list" where
  "VM_INFO =
     [(''gateway-vm'', [(''control_addr'', ''192.168.56.2'')]),
      (''servers-vm'', [(''control_addr'', ''192.168.56.3'')]),
      (''resolvers-vm'', [(''control_addr'', ''192.168.56.4'')])]"

definition CLI_COMMANDS :: "string list" where
  "CLI_COMMANDS = [''help'', ''check_vms'']"

definition HELP_TEXT :: string where
  "HELP_TEXT =
     ''Available commands for rt.py are:'' @ [nl] @
     ''help                 Show this text'' @ [nl] @
     ''check_vms            Run simple checks on the VMs''"

text \<open>The local configuration: a dictionary with the one key \<^verbatim>\<open>"vm_info"\<close>.\<close>

record config =
  vm_info :: "(string \<times> (string \<times> string) list) list"

section \<open>Logging and exiting\<close>

text \<open>
  \<^verbatim>\<open>log\<close> returns at once on an empty message. Otherwise the root logger's file
  handler writes the formatted message and its terminator, a line feed, to the log file,
  and \<^verbatim>\<open>print\<close> writes the same to standard output.
\<close>

definition log :: "env \<Rightarrow> string \<Rightarrow> world \<Rightarrow> world" where
  "log e in_str w =
     (if in_str = [] then w
      else let out = strftime_HMS (clock e w) @ '': '' @ in_str
           in w\<lparr>logfile := logfile w @ out @ [nl], console := console w @ out @ [nl]\<rparr>)"

text \<open>\<^verbatim>\<open>exit()\<close> with no argument raises \<^verbatim>\<open>SystemExit(None)\<close>: status 0.\<close>

definition die :: "env \<Rightarrow> string \<Rightarrow> 'a prog" where
  "die e in_str w = (Inl (SystemExit 0), log e (in_str @ '' Exiting.'') w)"

definition show_help :: "world \<Rightarrow> world" where
  "show_help w = w\<lparr>console := console w @ HELP_TEXT @ [nl]\<rparr>"

section \<open>Checking that a VM runs\<close>

text \<open>
  \<^verbatim>\<open>subprocess.Popen(cmd, shell=True)\<close> followed by \<^verbatim>\<open>p.wait()\<close>: the environment
  gives the return code and what the command wrote to its standard output.
\<close>

definition is_vm_running :: "env \<Rightarrow> string \<Rightarrow> unit prog" where
  "is_vm_running e vm_name w =
     (let (ret_val, out) = popen e w ''VBoxManage list runningvms'';
          w1 = w\<lparr>actions := actions w @ [Popen ''VBoxManage list runningvms'' (ret_val, out)]\<rparr>
      in if ret_val > 0 then die e ''VBoxManage runningvms failed to run.'' w1
         else let running_vms = parse_running_vms out
              in if vm_name \<notin> set running_vms
                 then die e (vm_name @ '' is not in the list of running VMs: '' @ [squote]
                             @ py_join '' '' running_vms @ [squote] @ ''.'') w1
                 else (Inr (), w1))"

section \<open>Running a command on a VM\<close>

text \<open>
  \<^verbatim>\<open>fabconn.run(cmd, hide=True, warn=...)\<close>: the remote command runs and its result
  comes back; when the command failed and \<^verbatim>\<open>warn\<close> is not set, the library raises
  \<^verbatim>\<open>UnexpectedExit\<close> instead of returning the result.
\<close>

definition fabric_run :: "env \<Rightarrow> string \<Rightarrow> string \<Rightarrow> bool \<Rightarrow> run_result prog" where
  "fabric_run e host cmd warn w =
     (let r = ssh_run e w host cmd;
          w' = w\<lparr>actions := actions w @ [SshRun host cmd warn r]\<rparr>
      in if failed r \<and> \<not> warn then (Inl UnexpectedExit, w') else (Inr r, w'))"

text \<open>
  The records of the SSH library reach the log file while \<^verbatim>\<open>cmd_to_vm\<close> is between
  the opening of the connection and its end. The script itself writes to the file there
  only through \<^verbatim>\<open>die\<close>, so the library's text is appended where the call ends, before
  the line of \<^verbatim>\<open>die\<close> if there is one.
\<close>

definition ssh_logging :: "env \<Rightarrow> world \<Rightarrow> world" where
  "ssh_logging e w = w\<lparr>logfile := logfile w @ ssh_logged e w\<rparr>"

definition cmd_to_vm :: "env \<Rightarrow> config \<Rightarrow> string \<Rightarrow> string \<Rightarrow> string prog" where
  "cmd_to_vm e rt_config cmd_to_run vm_name w =
     (if map_of VM_INFO vm_name = None
      then die e (''Attempt to run on '' @ vm_name @ '', which is not a valid VM'') w
      else and_then (is_vm_running e vm_name) (\<lambda>_ w1.
        case map_of (vm_info rt_config) vm_name of
          None \<Rightarrow> (Inl KeyError, w1)
        | Some d \<Rightarrow>
           (case map_of d ''control_addr'' of
              None \<Rightarrow> die e (''There was no address for '' @ vm_name) w1
            | Some this_control_address \<Rightarrow>
               if this_control_address = []
               then die e (''There was no address for '' @ vm_name) w1
               else
                 let opened = ssh_open e w1 this_control_address;
                     w2 = w1\<lparr>actions := actions w1 @ [SshOpen this_control_address opened]\<rparr>
                 in if \<not> opened
                    then die e (''Could not open an SSH connection to '' @ vm_name @ ''.'')
                           (ssh_logging e w2)
                    else
                      (case fabric_run e this_control_address ''hostname'' False w2 of
                         (Inl x, w3) \<Rightarrow> (Inl x, ssh_logging e w3)
                       | (Inr ret_hostname, w3) \<Rightarrow>
                          if failed ret_hostname
                          then die e (''Could not run hostname on '' @ vm_name) (ssh_logging e w3)
                          else
                            let ret_text = stdout ret_hostname
                            in if py_rstrip ret_text \<noteq> vm_name
                               then die e (''The host at '' @ this_control_address @ '' is not ''
                                           @ vm_name @ '': '' @ [squote] @ ret_text @ [squote])
                                      (ssh_logging e w3)
                               else and_then (fabric_run e this_control_address cmd_to_run True)
                                 (\<lambda>ret_main_cmd w4.
                                   if failed ret_main_cmd
                                   then (Inr (''Error: '' @ py_strip (stderr ret_main_cmd)),
                                         ssh_logging e w4)
                                   else (Inr (py_strip (stdout ret_main_cmd)),
                                         ssh_logging e w4)) w3))) w)"

section \<open>Start-up checks\<close>

text \<open>
  \<^verbatim>\<open>d[k] = v\<close> on a dictionary kept as an association list in insertion order: a
  key that is there keeps its place, a new key goes last.
\<close>

definition dict_set :: "('k \<times> 'v) list \<Rightarrow> 'k \<Rightarrow> 'v \<Rightarrow> ('k \<times> 'v) list" where
  "dict_set d k v =
     (if map_of d k = None then d @ [(k, v)]
      else map (\<lambda>(k', v'). if k' = k then (k', v) else (k', v')) d)"

text \<open>The loop over the VM names that asks \<^verbatim>\<open>VBoxManage showvminfo\<close> for each.\<close>

fun check_inventory :: "env \<Rightarrow> string list \<Rightarrow> unit prog" where
  "check_inventory e [] w = (Inr (), w)"
| "check_inventory e (this_vm_name # names) w =
     (let cmd = ''VBoxManage showvminfo '' @ this_vm_name @ '' >/dev/null 2>/dev/null'';
          ret_val = fst (popen e w cmd);
          w1 = w\<lparr>actions := actions w @ [Popen cmd (popen e w cmd)]\<rparr>
      in if ret_val > 0
         then die e (''Could not find '' @ [squote] @ this_vm_name @ [squote]
                     @ '' in the VirtualBox inventory.'') w1
         else check_inventory e names w1)"

definition startup_and_config_general :: "env \<Rightarrow> string list \<Rightarrow> config prog" where
  "startup_and_config_general e argv w =
     (case argv of
        [] \<Rightarrow> (Inl IndexError, w)
      | argv0 # _ \<Rightarrow>
         if argv0 \<noteq> ''./rt.py''
         then die e ''This program must be run as ./rt.py so that all the additional files are found.'' w
         else
           let cmd = ''VBoxManage --version >/dev/null 2>/dev/null'';
               ret_val = fst (popen e w cmd);
               w1 = w\<lparr>actions := actions w @ [Popen cmd (popen e w cmd)]\<rparr>
           in if ret_val > 0 then die e ''Could not run VBoxManage during sanity check.'' w1
              else and_then (check_inventory e (map fst VM_INFO))
                     (\<lambda>_ w2. (Inr \<lparr>vm_info = fold (\<lambda>(this_key, v) d. dict_set d this_key v) VM_INFO []\<rparr>, w2))
                     w1)"

section \<open>The sanity check of the VMs\<close>

text \<open>The body of the loop of \<^verbatim>\<open>sanity_check_vms\<close>, for one VM.\<close>

definition sanity_check_vm :: "env \<Rightarrow> config \<Rightarrow> string \<Rightarrow> unit prog" where
  "sanity_check_vm e rt_config this_vm w =
     and_then (is_vm_running e this_vm) (\<lambda>_.
     and_then (cmd_to_vm e rt_config ''ls ~/Target'' this_vm) (\<lambda>this_ret.
     and_then (if py_in ''No such file or directory'' this_ret
               then and_then (cmd_to_vm e rt_config ''mkdir ~/Target'' this_vm)
                      (\<lambda>inner_ret w'. (Inr (), log e (''Created ~/Target on '' @ this_vm) w'))
               else (\<lambda>w'. (Inr (), w'))) (\<lambda>_.
     and_then (cmd_to_vm e rt_config ''ls ~/Source'' this_vm) (\<lambda>this_ret.
               if py_in ''No such file or directory'' this_ret
               then and_then (cmd_to_vm e rt_config ''mkdir ~/Source'' this_vm)
                      (\<lambda>inner_ret w'. (Inr (), log e (''Created ~/Source on '' @ this_vm) w'))
               else (\<lambda>w'. (Inr (), w'))))))
       (log e (''Starting sanity check on '' @ this_vm) w)"

fun sanity_check_loop :: "env \<Rightarrow> config \<Rightarrow> string list \<Rightarrow> unit prog" where
  "sanity_check_loop e rt_config [] w = (Inr (), w)"
| "sanity_check_loop e rt_config (this_vm # vms) w =
     and_then (sanity_check_vm e rt_config this_vm) (\<lambda>_. sanity_check_loop e rt_config vms) w"

definition sanity_check_vms :: "env \<Rightarrow> config \<Rightarrow> bool prog" where
  "sanity_check_vms e rt_config w =
     and_then (sanity_check_loop e rt_config (map fst (vm_info rt_config)))
       (\<lambda>_ w'. (Inr True, w')) w"

section \<open>The main program\<close>

text \<open>
  The block under \<^verbatim>\<open>if __name__ == "__main__"\<close>, for the argument vector
  \<^verbatim>\<open>sys.argv\<close>. It always ends in an exception: the last statement is \<^verbatim>\<open>exit()\<close>.
\<close>

definition main :: "env \<Rightarrow> string list \<Rightarrow> unit prog" where
  "main e argv w =
     (let w1 = log e (''## Starting run on date '' @ strftime_Ymd (clock e w)) w
      in case argv of
           argv0 # cmd # cmd_args \<Rightarrow>
             and_then (startup_and_config_general e argv) (\<lambda>rt_config w2.
               let w3 = log e (''Command was '' @ cmd @ '' '' @ py_join '' '' cmd_args) w2
               in if cmd \<notin> set CLI_COMMANDS
                  then die e (cmd @ '' is not valid command.'') (show_help w3)
                  else and_then
                         (if cmd = ''help'' then (\<lambda>w'. (Inr (), show_help w'))
                          else if cmd = ''check_vms''
                          then and_then (sanity_check_vms e rt_config)
                                 (\<lambda>ok w'. (Inr (), if ok then log e ''VMs are running as expected'' w' else w'))
                          else (\<lambda>w'. (Inr (), w')))
                         (\<lambda>_ w'. (Inl (SystemExit 0), log e ''## Finished run'' w')) w3) w1
         | _ \<Rightarrow> die e ''There were no arguments on the command line.'' (show_help w1))"

section \<open>Reading the record of actions\<close>

text \<open>
  What \<^verbatim>\<open>cmd_to_vm\<close> hands back to its caller for the result of the caller's
  command, and the list of these texts, oldest first, for all the runs of one command
  line on the caller's behalf (the runs with \<^verbatim>\<open>warn=True\<close>; the identity check runs
  without it).
\<close>

definition reply_text :: "run_result \<Rightarrow> string" where
  "reply_text r = (if failed r then ''Error: '' @ py_strip (stderr r) else py_strip (stdout r))"

fun reply_of :: "string \<Rightarrow> action \<Rightarrow> string list" where
  "reply_of cmd (SshRun host c warn r) = (if c = cmd \<and> warn then [reply_text r] else [])"
| "reply_of cmd (Popen c r) = []"
| "reply_of cmd (SshOpen host ok) = []"

definition replies :: "string \<Rightarrow> world \<Rightarrow> string list" where
  "replies cmd w = concat (map (reply_of cmd) (actions w))"

text \<open>
  The same per host: the texts handed back for the runs of one command line on one host.
\<close>

fun host_reply_of :: "string \<Rightarrow> string \<Rightarrow> action \<Rightarrow> string list" where
  "host_reply_of host cmd (SshRun h c warn r) =
     (if h = host \<and> c = cmd \<and> warn then [reply_text r] else [])"
| "host_reply_of host cmd (Popen c r) = []"
| "host_reply_of host cmd (SshOpen h ok) = []"

definition host_replies :: "string \<Rightarrow> string \<Rightarrow> world \<Rightarrow> string list" where
  "host_replies host cmd w = concat (map (host_reply_of host cmd) (actions w))"



section \<open>Sample environments\<close>

definition tm0 :: tm where
  "tm0 = \<lparr>tm_year = 2019, tm_mon = 3, tm_mday = 14, tm_hour = 9, tm_min = 26, tm_sec = 53\<rparr>"

definition world0 :: world where
  "world0 = \<lparr>actions = [], logfile = [], console = []\<rparr>"

definition the_config :: config where
  "the_config = \<lparr>vm_info = VM_INFO\<rparr>"

definition listing0 :: string where
  "listing0 =
     dquote # ''gateway-vm'' @ dquote # '' {6f1a}'' @ [nl] @
     dquote # ''servers-vm'' @ dquote # '' {77c2}'' @ [nl] @
     dquote # ''resolvers-vm'' @ dquote # '' {03de}'' @ [nl]"

definition host_name0 :: "string \<Rightarrow> string" where
  "host_name0 host =
     (if host = ''192.168.56.2'' then ''gateway-vm''
      else if host = ''192.168.56.3'' then ''servers-vm''
      else ''resolvers-vm'')"

text \<open>
  All VMs run and answer to their names; \<^verbatim>\<open>~/Target\<close> is missing everywhere and
  \<^verbatim>\<open>~/Source\<close> is there.
\<close>

definition ssh_run0 :: "string \<Rightarrow> string \<Rightarrow> run_result" where
  "ssh_run0 host cmd =
     (if cmd = ''hostname''
      then \<lparr>exited = 0, stdout = host_name0 host @ [nl], stderr = []\<rparr>
      else if cmd = ''ls ~/Target''
      then \<lparr>exited = 2, stdout = [],
            stderr = ''ls: cannot access /root/Target: No such file or directory'' @ [nl]\<rparr>
      else \<lparr>exited = 0, stdout = (if cmd = ''ls ~/Source'' then ''zones'' @ [nl] else []),
            stderr = []\<rparr>)"

definition env0 :: env where
  "env0 =
     \<lparr>clock = (\<lambda>w. tm0),
      popen = (\<lambda>w cmd. if cmd = ''VBoxManage list runningvms'' then (0, listing0) else (0, [])),
      ssh_open = (\<lambda>w host. True),
      ssh_run = (\<lambda>w. ssh_run0),
      ssh_logged = (\<lambda>w. ''Connected (version 2.0, client OpenSSH_7.4p1)'' @ [nl])\<rparr>"

text \<open>The same, but the \<^verbatim>\<open>hostname\<close> command fails on every host.\<close>

definition env_no_hostname :: env where
  "env_no_hostname =
     env0\<lparr>ssh_run := (\<lambda>w host cmd.
       if cmd = ''hostname''
       then \<lparr>exited = 127, stdout = [], stderr = ''bash: hostname: command not found'' @ [nl]\<rparr>
       else ssh_run env0 w host cmd)\<rparr>"


section \<open>Facts about logging and sequencing\<close>

lemma actions_log [simp]: "actions (log e m w) = actions w"
  by (simp add: log_def Let_def)

lemma fst_die [simp]: "fst (die e m w) = Inl (SystemExit 0)"
  by (simp add: die_def)

lemma snd_die [simp]: "snd (die e m w) = log e (m @ '' Exiting.'') w"
  by (simp add: die_def)

lemma logfile_log:
  "m \<noteq> [] \<Longrightarrow> logfile (log e m w) = logfile w @ strftime_HMS (clock e w) @ '': '' @ m @ [nl]"
  by (simp add: log_def Let_def)

lemma console_log:
  "m \<noteq> [] \<Longrightarrow> console (log e m w) = console w @ strftime_HMS (clock e w) @ '': '' @ m @ [nl]"
  by (simp add: log_def Let_def)

lemma actions_show_help [simp]: "actions (show_help w) = actions w"
  by (simp add: show_help_def)

lemma logfile_show_help [simp]: "logfile (show_help w) = logfile w"
  by (simp add: show_help_def)

lemma console_show_help [simp]: "console (show_help w) = console w @ HELP_TEXT @ [nl]"
  by (simp add: show_help_def)

lemma and_then_Inr: "m w = (Inr v, w') \<Longrightarrow> and_then m f w = f v w'"
  by (simp add: and_then_def)

lemma and_then_Inl: "m w = (Inl x, w') \<Longrightarrow> and_then m f w = (Inl x, w')"
  by (simp add: and_then_def)

lemma digit_not_nl: "digit d \<noteq> nl"
proof -
  have "d mod 10 < length ''0123456789''" by simp
  then have "digit d \<in> set ''0123456789''"
    unfolding digit_def by (rule nth_mem)
  then show ?thesis by (auto simp: nl_def)
qed

lemma nl_notin_stamp: "nl \<notin> set (strftime_HMS t)"
  using digit_not_nl [symmetric] by (simp add: strftime_HMS_def two_digits_def nl_def)

section \<open>The log file\<close>

text \<open>
  Claim C8, as amended. A call of \<^verbatim>\<open>log\<close> with a non-empty message appends to the log
  file the time as HH-MM-SS, a colon and a space, the message and a line feed; this is
  one line whenever the message holds no line feed. A call with the empty message
  changes nothing.
\<close>

theorem log_appends_line:
  "(in_str \<noteq> [] \<longrightarrow>
      logfile (log e in_str w) = logfile w @ strftime_HMS (clock e w) @ '': '' @ in_str @ [nl]
      \<and> (nl \<notin> set in_str \<longrightarrow> nl \<notin> set (strftime_HMS (clock e w) @ '': '' @ in_str)))
   \<and> (in_str = [] \<longrightarrow> log e in_str w = w)"
  using nl_notin_stamp [of "clock e w"] by (simp add: log_def Let_def nl_def)

theorem log_appends_line_witness:
  "''ok'' \<noteq> [] \<and> nl \<notin> set ''ok''
   \<and> logfile (log env0 ''ok'' world0) = ''09-26-53: ok'' @ [nl]
   \<and> nl \<notin> set ''09-26-53: ok''
   \<and> log env0 [] world0 = world0"
  using log_appends_line [of "''ok''" env0 world0] log_appends_line [of "[]" env0 world0]
  by (simp add: env0_def world0_def tm0_def strftime_HMS_def two_digits_def digit_def nl_def)

text \<open>
  The claim as it stands fails on the empty message: the log file does not gain the
  line that holds the time and an empty message.
\<close>

theorem log_empty_counterexample:
  "logfile (log env0 [] world0) \<noteq>
     logfile world0 @ strftime_HMS (clock env0 world0) @ '': '' @ [] @ [nl]"
  by (simp add: log_def)

section \<open>The parser of the running VMs\<close>

lemma index_of_append: "c \<notin> set xs \<Longrightarrow> index_of c (xs @ c # ys) = Some (length xs)"
  by (induction xs) auto

text \<open>
  Claim C9, as amended. For a line made of a double quote, a non-empty name without a
  double quote, a double quote and any further text, the token taken from the line is
  the name.
\<close>

theorem running_vm_name_quoted:
  assumes "name \<noteq> []" and "dquote \<notin> set name"
  shows "running_vm_name (dquote # name @ dquote # rest) = name"
proof -
  obtain a as where n: "name = a # as"
    using assms(1) by (cases name) auto
  have "index_of dquote (as @ dquote # rest) = Some (length as)"
    using assms(2) n by (simp add: index_of_append)
  then have f: "py_find (dquote # name @ dquote # rest) dquote 2 = int (length name + 1)"
    by (simp add: py_find_def n)
  show ?thesis
    by (simp add: running_vm_name_def f py_slice_def py_bound_def)
qed

theorem running_vm_name_quoted_witness:
  "''gateway-vm'' \<noteq> [] \<and> dquote \<notin> set ''gateway-vm''
   \<and> running_vm_name (dquote # ''gateway-vm'' @ dquote # '' {6f1a}'') = ''gateway-vm''"
  using running_vm_name_quoted [of "''gateway-vm''" "'' {6f1a}''"]
  by (simp add: dquote_def)

text \<open>
  The search for the closing quote starts at index 2, so it steps over the closing quote
  of an empty name: the line of two double quotes followed by \<^verbatim>\<open> {6f1a}\<close> does not
  give the empty name between its quotes.
\<close>

theorem running_vm_name_empty_counterexample:
  "running_vm_name (dquote # [] @ dquote # '' {6f1a}'') \<noteq> []"
  by (simp add: running_vm_name_def py_find_def py_slice_def py_bound_def dquote_def)

lemma parse_listing0:
  "parse_running_vms listing0 = [''gateway-vm'', ''servers-vm'', ''resolvers-vm'']"
  by (simp add: parse_running_vms_def listing0_def py_strip_def py_lstrip_def py_rstrip_def
      py_isspace_def running_vm_name_def py_find_def py_slice_def py_bound_def dquote_def nl_def)

section \<open>Whether a VM runs\<close>

text \<open>
  Claim C4. When \<^verbatim>\<open>VBoxManage list runningvms\<close> returns 0, \<^verbatim>\<open>is_vm_running\<close> exits
  the process if the name is not among the names parsed from its output, and returns if
  it is.
\<close>

theorem is_vm_running_listed:
  assumes "fst (popen e w ''VBoxManage list runningvms'') = 0"
  shows "(vm_name \<notin> set (parse_running_vms (snd (popen e w ''VBoxManage list runningvms'')))
            \<longrightarrow> fst (is_vm_running e vm_name w) = Inl (SystemExit 0))
       \<and> (vm_name \<in> set (parse_running_vms (snd (popen e w ''VBoxManage list runningvms'')))
            \<longrightarrow> fst (is_vm_running e vm_name w) = Inr ())"
  using assms
  by (cases "popen e w ''VBoxManage list runningvms''") (simp add: is_vm_running_def Let_def)

theorem is_vm_running_listed_witness:
  "fst (popen env0 world0 ''VBoxManage list runningvms'') = 0
   \<and> ''mail-vm'' \<notin> set (parse_running_vms (snd (popen env0 world0 ''VBoxManage list runningvms'')))
   \<and> fst (is_vm_running env0 ''mail-vm'' world0) = Inl (SystemExit 0)
   \<and> ''servers-vm'' \<in> set (parse_running_vms (snd (popen env0 world0 ''VBoxManage list runningvms'')))
   \<and> fst (is_vm_running env0 ''servers-vm'' world0) = Inr ()"
  using is_vm_running_listed [of env0 world0 "''mail-vm''"]
    is_vm_running_listed [of env0 world0 "''servers-vm''"]
  by (simp add: env0_def parse_listing0)

lemma is_vm_running_actions:
  "is_vm_running e vm_name w = (r, w') \<Longrightarrow>
     actions w' = actions w @
       [Popen ''VBoxManage list runningvms'' (popen e w ''VBoxManage list runningvms'')]"
  by (cases "popen e w ''VBoxManage list runningvms''")
     (auto simp: is_vm_running_def Let_def die_def split: if_splits)

lemma is_vm_running_env0:
  "vm \<in> set [''gateway-vm'', ''servers-vm'', ''resolvers-vm''] \<Longrightarrow> popen e = popen env0 \<Longrightarrow>
   is_vm_running e vm w =
     (Inr (), w\<lparr>actions := actions w @ [Popen ''VBoxManage list runningvms'' (0, listing0)]\<rparr>)"
  by (simp add: is_vm_running_def env0_def parse_listing0)

section \<open>Running a command on a VM\<close>

text \<open>
  Claim C2. For a VM name that is not a key of \<^verbatim>\<open>VM_INFO\<close>, \<^verbatim>\<open>cmd_to_vm\<close> ends the
  process through \<^verbatim>\<open>die\<close> with no external action at all: the running VMs are not
  asked for, no SSH connection is opened and no remote command runs. Only the message
  is logged.
\<close>

theorem cmd_to_vm_unknown_vm:
  assumes "vm_name \<notin> set (map fst VM_INFO)"
  shows "fst (cmd_to_vm e rt_config cmd_to_run vm_name w) = Inl (SystemExit 0)
       \<and> actions (snd (cmd_to_vm e rt_config cmd_to_run vm_name w)) = actions w
       \<and> logfile (snd (cmd_to_vm e rt_config cmd_to_run vm_name w)) =
           logfile w @ strftime_HMS (clock e w) @ '': Attempt to run on '' @ vm_name
             @ '', which is not a valid VM Exiting.'' @ [nl]"
proof -
  from assms have "map_of VM_INFO vm_name = None"
    by (simp add: map_of_eq_None_iff)
  then show ?thesis
    by (simp add: cmd_to_vm_def logfile_log)
qed

theorem cmd_to_vm_unknown_vm_witness:
  "''mail-vm'' \<notin> set (map fst VM_INFO)
   \<and> fst (cmd_to_vm env0 the_config ''ls'' ''mail-vm'' world0) = Inl (SystemExit 0)
   \<and> actions (snd (cmd_to_vm env0 the_config ''ls'' ''mail-vm'' world0)) = []"
  using cmd_to_vm_unknown_vm [of "''mail-vm''" env0 the_config "''ls''" world0]
  by (simp add: VM_INFO_def world0_def)

text \<open>
  The way of \<^verbatim>\<open>cmd_to_vm\<close> to the opened session: the VM is configured and runs, it
  has an address, and the connection opens. What is left is the identity check and the
  caller's command.
\<close>

lemma cmd_to_vm_session:
  assumes "vm_name \<in> set (map fst VM_INFO)"
    and "is_vm_running e vm_name w = (Inr (), w1)"
    and "map_of (vm_info rt_config) vm_name = Some d"
    and "map_of d ''control_addr'' = Some addr"
    and "addr \<noteq> []"
    and "ssh_open e w1 addr"
  shows "cmd_to_vm e rt_config cmd_to_run vm_name w =
     (case fabric_run e addr ''hostname'' False (w1\<lparr>actions := actions w1 @ [SshOpen addr True]\<rparr>) of
        (Inl x, w3) \<Rightarrow> (Inl x, ssh_logging e w3)
      | (Inr ret_hostname, w3) \<Rightarrow>
          if failed ret_hostname
          then die e (''Could not run hostname on '' @ vm_name) (ssh_logging e w3)
          else
            let ret_text = stdout ret_hostname
            in if py_rstrip ret_text \<noteq> vm_name
               then die e (''The host at '' @ addr @ '' is not ''
                           @ vm_name @ '': '' @ [squote] @ ret_text @ [squote]) (ssh_logging e w3)
               else and_then (fabric_run e addr cmd_to_run True)
                 (\<lambda>ret_main_cmd w4.
                   if failed ret_main_cmd
                   then (Inr (''Error: '' @ py_strip (stderr ret_main_cmd)), ssh_logging e w4)
                   else (Inr (py_strip (stdout ret_main_cmd)), ssh_logging e w4)) w3)"
proof -
  from assms(1) obtain y where "map_of VM_INFO vm_name = Some y"
    using map_of_eq_None_iff [of VM_INFO vm_name] by auto
  then show ?thesis
    using assms(2-6) by (simp add: cmd_to_vm_def and_then_Inr Let_def)
qed

lemma actions_ssh_logging [simp]: "actions (ssh_logging e w) = actions w"
  by (simp add: ssh_logging_def)

lemma replies_ssh_logging [simp]: "replies c (ssh_logging e w) = replies c w"
  by (simp add: replies_def)

text \<open>
  Claim C1. Once the session is open and the identity check has passed, a caller's
  command that exits non-zero makes \<^verbatim>\<open>cmd_to_vm\<close> return (the process goes on) the
  marker \<^verbatim>\<open>Error: \<close> followed by the stripped standard error; a command that exits
  with 0 makes it return the stripped standard output and nothing else.
\<close>

theorem cmd_to_vm_reply:
  assumes "vm_name \<in> set (map fst VM_INFO)"
    and "is_vm_running e vm_name w = (Inr (), w1)"
    and "map_of (vm_info rt_config) vm_name = Some d"
    and "map_of d ''control_addr'' = Some addr"
    and "addr \<noteq> []"
    and "ssh_open e w1 addr"
    and "w2 = w1\<lparr>actions := actions w1 @ [SshOpen addr True]\<rparr>"
    and "h = ssh_run e w2 addr ''hostname''"
    and "exited h = 0"
    and "py_rstrip (stdout h) = vm_name"
    and "w3 = w2\<lparr>actions := actions w2 @ [SshRun addr ''hostname'' False h]\<rparr>"
    and "r = ssh_run e w3 addr cmd_to_run"
  shows "(exited r \<noteq> 0 \<longrightarrow>
            fst (cmd_to_vm e rt_config cmd_to_run vm_name w) = Inr (''Error: '' @ py_strip (stderr r)))
       \<and> (exited r = 0 \<longrightarrow>
            fst (cmd_to_vm e rt_config cmd_to_run vm_name w) = Inr (py_strip (stdout r)))"
proof -
  have s: "fabric_run e addr ''hostname'' False w2 = (Inr h, w3)"
    using assms(8,9,11) by (simp add: fabric_run_def failed_def Let_def)
  have m: "fabric_run e addr cmd_to_run True w3 =
             (Inr r, w3\<lparr>actions := actions w3 @ [SshRun addr cmd_to_run True r]\<rparr>)"
    using assms(12) by (simp add: fabric_run_def Let_def)
  have "cmd_to_vm e rt_config cmd_to_run vm_name w =
          (Inr (if failed r then ''Error: '' @ py_strip (stderr r) else py_strip (stdout r)),
           ssh_logging e (w3\<lparr>actions := actions w3 @ [SshRun addr cmd_to_run True r]\<rparr>))"
    using assms(9,10)
    by (simp add: cmd_to_vm_session [OF assms(1-6)] assms(7) [symmetric]
        and_then_def s m failed_def Let_def)
  then show ?thesis by (simp add: failed_def)
qed

theorem cmd_to_vm_reply_witness:
  "fst (cmd_to_vm env0 the_config ''ls ~/Target'' ''gateway-vm'' world0) =
     Inr ''Error: ls: cannot access /root/Target: No such file or directory''
   \<and> fst (cmd_to_vm env0 the_config ''ls ~/Source'' ''gateway-vm'' world0) = Inr ''zones''"
proof -
  have run: "is_vm_running env0 ''gateway-vm'' world0 =
      (Inr (), world0\<lparr>actions := actions world0 @ [Popen ''VBoxManage list runningvms'' (0, listing0)]\<rparr>)"
    by (rule is_vm_running_env0) simp_all
  have vm: "''gateway-vm'' \<in> set (map fst VM_INFO)"
    by (simp add: VM_INFO_def)
  have cfg: "map_of (vm_info the_config) ''gateway-vm'' = Some [(''control_addr'', ''192.168.56.2'')]"
    by (simp add: the_config_def VM_INFO_def)
  have addr: "map_of [(''control_addr'', ''192.168.56.2'')] ''control_addr'' = Some ''192.168.56.2''"
    by simp
  have ne: "''192.168.56.2'' \<noteq> []" by simp
  have op: "ssh_open env0 w ''192.168.56.2''" for w
    by (simp add: env0_def)
  have ex: "exited (ssh_run env0 w ''192.168.56.2'' ''hostname'') = 0" for w
    by (simp add: env0_def ssh_run0_def)
  have hn: "py_rstrip (stdout (ssh_run env0 w ''192.168.56.2'' ''hostname'')) = ''gateway-vm''" for w
    by (simp add: env0_def ssh_run0_def host_name0_def py_rstrip_def py_isspace_def nl_def)
  note t = cmd_to_vm_reply [OF vm run cfg addr ne op refl refl ex hn refl refl]
  show ?thesis
    using t [of "''ls ~/Target''"] t [of "''ls ~/Source''"]
    by (simp add: env0_def ssh_run0_def py_strip_def py_lstrip_def py_rstrip_def py_isspace_def nl_def)
qed

text \<open>
  Claim C3. Once the session is open, if the \<^verbatim>\<open>hostname\<close> command exits non-zero or
  its output, stripped on the right, is not the VM's name, \<^verbatim>\<open>cmd_to_vm\<close> does not
  return: the process ends, the identity check is the last action performed, and the
  caller's command has not run.
\<close>

theorem cmd_to_vm_identity_check:
  assumes "vm_name \<in> set (map fst VM_INFO)"
    and "is_vm_running e vm_name w = (Inr (), w1)"
    and "map_of (vm_info rt_config) vm_name = Some d"
    and "map_of d ''control_addr'' = Some addr"
    and "addr \<noteq> []"
    and "ssh_open e w1 addr"
    and "w2 = w1\<lparr>actions := actions w1 @ [SshOpen addr True]\<rparr>"
    and "h = ssh_run e w2 addr ''hostname''"
    and "exited h \<noteq> 0 \<or> py_rstrip (stdout h) \<noteq> vm_name"
  shows "(\<exists>x. fst (cmd_to_vm e rt_config cmd_to_run vm_name w) = Inl x)
       \<and> actions (snd (cmd_to_vm e rt_config cmd_to_run vm_name w)) =
           actions w2 @ [SshRun addr ''hostname'' False h]
       \<and> replies cmd_to_run (snd (cmd_to_vm e rt_config cmd_to_run vm_name w)) =
           replies cmd_to_run w"
proof -
  let ?w3 = "w2\<lparr>actions := actions w2 @ [SshRun addr ''hostname'' False h]\<rparr>"
  have rep: "replies cmd_to_run ?w3 = replies cmd_to_run w"
    by (simp add: replies_def assms(7) is_vm_running_actions [OF assms(2)])
  show ?thesis
  proof (cases "exited h = 0")
    case False
    then have "fabric_run e addr ''hostname'' False w2 = (Inl UnexpectedExit, ?w3)"
      using assms(8) by (simp add: fabric_run_def failed_def Let_def)
    then have "cmd_to_vm e rt_config cmd_to_run vm_name w = (Inl UnexpectedExit, ssh_logging e ?w3)"
      by (simp add: cmd_to_vm_session [OF assms(1-6)] assms(7) [symmetric])
    then show ?thesis using rep by simp
  next
    case True
    with assms(9) have ne: "py_rstrip (stdout h) \<noteq> vm_name" by simp
    from True have "fabric_run e addr ''hostname'' False w2 = (Inr h, ?w3)"
      using assms(8) by (simp add: fabric_run_def failed_def Let_def)
    then have "cmd_to_vm e rt_config cmd_to_run vm_name w =
        die e (''The host at '' @ addr @ '' is not '' @ vm_name @ '': ''
               @ [squote] @ stdout h @ [squote]) (ssh_logging e ?w3)"
      using True ne
      by (simp add: cmd_to_vm_session [OF assms(1-6)] assms(7) [symmetric]
          and_then_def failed_def Let_def)
    then show ?thesis using rep by (simp add: replies_def)
  qed
qed

theorem cmd_to_vm_identity_check_witness:
  "(\<exists>x. fst (cmd_to_vm env_no_hostname the_config ''ls ~/Target'' ''gateway-vm'' world0) = Inl x)
   \<and> replies ''ls ~/Target''
        (snd (cmd_to_vm env_no_hostname the_config ''ls ~/Target'' ''gateway-vm'' world0)) = []"
proof -
  have run: "is_vm_running env_no_hostname ''gateway-vm'' world0 =
      (Inr (), world0\<lparr>actions := actions world0 @ [Popen ''VBoxManage list runningvms'' (0, listing0)]\<rparr>)"
    by (rule is_vm_running_env0) (simp_all add: env_no_hostname_def)
  have vm: "''gateway-vm'' \<in> set (map fst VM_INFO)"
    by (simp add: VM_INFO_def)
  have cfg: "map_of (vm_info the_config) ''gateway-vm'' = Some [(''control_addr'', ''192.168.56.2'')]"
    by (simp add: the_config_def VM_INFO_def)
  have addr: "map_of [(''control_addr'', ''192.168.56.2'')] ''control_addr'' = Some ''192.168.56.2''"
    by simp
  have ne: "''192.168.56.2'' \<noteq> []" by simp
  have op: "ssh_open env_no_hostname w ''192.168.56.2''" for w
    by (simp add: env_no_hostname_def env0_def)
  have ex: "exited (ssh_run env_no_hostname w ''192.168.56.2'' ''hostname'') \<noteq> 0
            \<or> py_rstrip (stdout (ssh_run env_no_hostname w ''192.168.56.2'' ''hostname''))
                \<noteq> ''gateway-vm''" for w
    by (simp add: env_no_hostname_def)
  show ?thesis
    using cmd_to_vm_identity_check [OF vm run cfg addr ne op refl refl ex, of "''ls ~/Target''"]
    by (simp add: replies_def world0_def)
qed

section \<open>The command line\<close>

lemma main_short:
  assumes "length argv < 2"
  shows "main e argv w =
           die e ''There were no arguments on the command line.''
             (show_help (log e (''## Starting run on date '' @ strftime_Ymd (clock e w)) w))"
proof (cases argv)
  case Nil
  then show ?thesis by (simp add: main_def Let_def)
next
  case (Cons a as)
  with assms have "as = []" by simp
  with Cons show ?thesis by (simp add: main_def Let_def)
qed

lemma main_long:
  assumes "argv = argv0 # cmd # cmd_args"
    and "w1 = log e (''## Starting run on date '' @ strftime_Ymd (clock e w)) w"
    and "startup_and_config_general e argv w1 = (Inr rt_config, w2)"
    and "w3 = log e (''Command was '' @ cmd @ '' '' @ py_join '' '' cmd_args) w2"
  shows "main e argv w =
     (if cmd \<notin> set CLI_COMMANDS
      then die e (cmd @ '' is not valid command.'') (show_help w3)
      else and_then
             (if cmd = ''help'' then (\<lambda>w'. (Inr (), show_help w'))
              else if cmd = ''check_vms''
              then and_then (sanity_check_vms e rt_config)
                     (\<lambda>ok w'. (Inr (), if ok then log e ''VMs are running as expected'' w' else w'))
              else (\<lambda>w'. (Inr (), w')))
             (\<lambda>_ w'. (Inl (SystemExit 0), log e ''## Finished run'' w')) w3)"
  using assms(3) unfolding assms(1,2,4)
  by (simp add: main_def Let_def and_then_def)

text \<open>
  Claim C10. With fewer than two words on the command line the program prints the help
  text, logs that there were no arguments and exits, and it has performed no external
  action: the start-up checks did not run, neither the check of the invocation path
  (the log holds the two lines below and nothing else, whatever \<^verbatim>\<open>sys.argv[0]\<close> is)
  nor any \<^verbatim>\<open>VBoxManage\<close> command.
\<close>

theorem main_no_arguments_skips_startup:
  assumes "length argv < 2"
    and "w1 = log e (''## Starting run on date '' @ strftime_Ymd (clock e w)) w"
    and "w' = snd (main e argv w)"
  shows "fst (main e argv w) = Inl (SystemExit 0)
       \<and> actions w' = actions w
       \<and> logfile w' = logfile w1 @ strftime_HMS (clock e (show_help w1))
             @ '': There were no arguments on the command line. Exiting.'' @ [nl]
       \<and> console w' = console w1 @ HELP_TEXT @ [nl] @ strftime_HMS (clock e (show_help w1))
             @ '': There were no arguments on the command line. Exiting.'' @ [nl]"
  unfolding assms(3) main_short [OF assms(1)] assms(2)
  by (simp add: logfile_log console_log)

theorem main_no_arguments_skips_startup_witness:
  "length [''rt.py''] < 2
   \<and> fst (main env0 [''rt.py''] world0) = Inl (SystemExit 0)
   \<and> actions (snd (main env0 [''rt.py''] world0)) = []
   \<and> logfile (snd (main env0 [''rt.py''] world0)) =
       ''09-26-53: ## Starting run on date 2019-03-14'' @ [nl]
       @ ''09-26-53: There were no arguments on the command line. Exiting.'' @ [nl]"
  using main_no_arguments_skips_startup [of "[''rt.py'']" _ env0 world0, OF _ refl refl]
  by (simp add: world0_def env0_def tm0_def logfile_log strftime_HMS_def strftime_Ymd_def
      two_digits_def four_digits_def digit_def)

text \<open>
  Claim C7, as amended. With no argument the program prints the help text and exits
  with the logged message that there were no arguments. With a first argument and the
  start-up checks passed: an argument outside \<^verbatim>\<open>help\<close> and \<^verbatim>\<open>check_vms\<close> makes it
  print the help text and exit with the logged message that the argument is not valid
  command; \<^verbatim>\<open>help\<close> makes it print the help text and finish, and in both cases no
  action follows those of the start-up checks, so no VM is checked.
\<close>

theorem main_dispatch:
  assumes "w1 = log e (''## Starting run on date '' @ strftime_Ymd (clock e w)) w"
    and "w' = snd (main e argv w)"
  shows "(length argv < 2 \<longrightarrow>
            fst (main e argv w) = Inl (SystemExit 0)
          \<and> console w' = console w1 @ HELP_TEXT @ [nl] @ strftime_HMS (clock e (show_help w1))
              @ '': There were no arguments on the command line. Exiting.'' @ [nl]
          \<and> logfile w' = logfile w1 @ strftime_HMS (clock e (show_help w1))
              @ '': There were no arguments on the command line. Exiting.'' @ [nl])
       \<and> (\<forall>argv0 cmd cmd_args rt_config w2 w3.
            argv = argv0 # cmd # cmd_args
          \<and> startup_and_config_general e argv w1 = (Inr rt_config, w2)
          \<and> w3 = log e (''Command was '' @ cmd @ '' '' @ py_join '' '' cmd_args) w2 \<longrightarrow>
            (cmd \<notin> set CLI_COMMANDS \<longrightarrow>
               fst (main e argv w) = Inl (SystemExit 0)
             \<and> console w' = console w3 @ HELP_TEXT @ [nl] @ strftime_HMS (clock e (show_help w3))
                 @ '': '' @ cmd @ '' is not valid command. Exiting.'' @ [nl]
             \<and> logfile w' = logfile w3 @ strftime_HMS (clock e (show_help w3))
                 @ '': '' @ cmd @ '' is not valid command. Exiting.'' @ [nl]
             \<and> actions w' = actions w2)
          \<and> (cmd = ''help'' \<longrightarrow>
               fst (main e argv w) = Inl (SystemExit 0)
             \<and> console w' = console w3 @ HELP_TEXT @ [nl] @ strftime_HMS (clock e (show_help w3))
                 @ '': ## Finished run'' @ [nl]
             \<and> logfile w' = logfile w3 @ strftime_HMS (clock e (show_help w3))
                 @ '': ## Finished run'' @ [nl]
             \<and> actions w' = actions w2))"
proof (intro conjI impI allI)
  assume "length argv < 2"
  then have m: "main e argv w = die e ''There were no arguments on the command line.'' (show_help w1)"
    unfolding assms(1) by (rule main_short)
  show "fst (main e argv w) = Inl (SystemExit 0)" by (simp add: m)
  show "console w' = console w1 @ HELP_TEXT @ [nl] @ strftime_HMS (clock e (show_help w1))
              @ '': There were no arguments on the command line. Exiting.'' @ [nl]"
    by (simp add: assms(2) m console_log)
  show "logfile w' = logfile w1 @ strftime_HMS (clock e (show_help w1))
              @ '': There were no arguments on the command line. Exiting.'' @ [nl]"
    by (simp add: assms(2) m logfile_log)
next
  fix argv0 cmd cmd_args rt_config w2 w3
  assume a: "argv = argv0 # cmd # cmd_args
          \<and> startup_and_config_general e argv w1 = (Inr rt_config, w2)
          \<and> w3 = log e (''Command was '' @ cmd @ '' '' @ py_join '' '' cmd_args) w2"
  then have a1: "argv = argv0 # cmd # cmd_args"
    and a2: "startup_and_config_general e argv w1 = (Inr rt_config, w2)"
    and a3: "w3 = log e (''Command was '' @ cmd @ '' '' @ py_join '' '' cmd_args) w2"
    by blast+
  note ml = main_long [OF a1 assms(1) a2 a3]
  {
    assume "cmd \<notin> set CLI_COMMANDS"
    then have m: "main e argv w = die e (cmd @ '' is not valid command.'') (show_help w3)"
      using ml by simp
    show "fst (main e argv w) = Inl (SystemExit 0)" by (simp add: m)
    show "console w' = console w3 @ HELP_TEXT @ [nl] @ strftime_HMS (clock e (show_help w3))
                 @ '': '' @ cmd @ '' is not valid command. Exiting.'' @ [nl]"
      by (simp add: assms(2) m console_log)
    show "logfile w' = logfile w3 @ strftime_HMS (clock e (show_help w3))
                 @ '': '' @ cmd @ '' is not valid command. Exiting.'' @ [nl]"
      by (simp add: assms(2) m logfile_log)
    show "actions w' = actions w2"
      by (simp add: assms(2) m a3)
  }
  {
    assume "cmd = ''help''"
    then have m: "main e argv w = (Inl (SystemExit 0), log e ''## Finished run'' (show_help w3))"
      using ml by (simp add: CLI_COMMANDS_def and_then_def)
    show "fst (main e argv w) = Inl (SystemExit 0)" by (simp add: m)
    show "console w' = console w3 @ HELP_TEXT @ [nl] @ strftime_HMS (clock e (show_help w3))
                 @ '': ## Finished run'' @ [nl]"
      by (simp add: assms(2) m console_log)
    show "logfile w' = logfile w3 @ strftime_HMS (clock e (show_help w3))
                 @ '': ## Finished run'' @ [nl]"
      by (simp add: assms(2) m logfile_log)
    show "actions w' = actions w2"
      by (simp add: assms(2) m a3)
  }
qed

lemma startup_env0:
  "popen e = popen env0 \<Longrightarrow>
   \<exists>w2. startup_and_config_general e (''./rt.py'' # args) w = (Inr the_config, w2)"
  by (simp add: startup_and_config_general_def env0_def VM_INFO_def and_then_def Let_def
      the_config_def dict_set_def)

theorem main_dispatch_witness:
  "fst (main env0 [''./rt.py'', ''badcmd''] world0) = Inl (SystemExit 0)
   \<and> fst (main env0 [''./rt.py'', ''help''] world0) = Inl (SystemExit 0)
   \<and> fst (main env0 [] world0) = Inl (SystemExit 0)"
proof -
  let ?w1 = "log env0 (''## Starting run on date '' @ strftime_Ymd (clock env0 world0)) world0"
  obtain wb where b: "startup_and_config_general env0 [''./rt.py'', ''badcmd''] ?w1 = (Inr the_config, wb)"
    using startup_env0 [of env0 "[''badcmd'']" ?w1] by auto
  obtain wh where h: "startup_and_config_general env0 [''./rt.py'', ''help''] ?w1 = (Inr the_config, wh)"
    using startup_env0 [of env0 "[''help'']" ?w1] by auto
  have 1: "fst (main env0 [''./rt.py'', ''badcmd''] world0) = Inl (SystemExit 0)"
    using main_dispatch [where e = env0 and w = world0 and argv = "[''./rt.py'', ''badcmd'']",
        OF refl refl, THEN conjunct2, THEN spec, THEN spec, THEN spec,
        THEN spec, THEN spec, THEN spec, THEN mp, OF conjI [OF refl conjI [OF b refl]]]
    by (simp add: CLI_COMMANDS_def)
  have 2: "fst (main env0 [''./rt.py'', ''help''] world0) = Inl (SystemExit 0)"
    using main_dispatch [where e = env0 and w = world0 and argv = "[''./rt.py'', ''help'']",
        OF refl refl, THEN conjunct2, THEN spec, THEN spec, THEN spec,
        THEN spec, THEN spec, THEN spec, THEN mp, OF conjI [OF refl conjI [OF h refl]]]
    by (simp add: CLI_COMMANDS_def)
  have 3: "fst (main env0 [] world0) = Inl (SystemExit 0)"
    using main_dispatch [where e = env0 and w = world0 and argv = "[]",
        OF refl refl, THEN conjunct1] by simp
  from 1 2 3 show ?thesis by simp
qed

text \<open>
  When the start-up checks fail the help text is not printed, whatever the command:
  called as \<^verbatim>\<open>rt.py badcmd\<close>, without the leading \<^verbatim>\<open>./\<close>, the program prints and
  logs two lines only.
\<close>

theorem main_dispatch_counterexample:
  "console (snd (main env0 [''rt.py'', ''badcmd''] world0)) =
     ''09-26-53: ## Starting run on date 2019-03-14'' @ [nl]
     @ ''09-26-53: This program must be run as ./rt.py so that all the additional files are found. Exiting.'' @ [nl]"
  by (simp add: main_def startup_and_config_general_def and_then_def die_def log_def Let_def
      env0_def world0_def tm0_def strftime_HMS_def strftime_Ymd_def two_digits_def
      four_digits_def digit_def)

section \<open>The exit status\<close>

lemma die_exit_status: "map_sum exit_status id (fst (die e m w)) = Inl 0"
  by (simp add: die_def)

text \<open>
  Claim C6 on one run: \<^verbatim>\<open>./rt.py check_vms\<close> where the VMs run and the connection
  opens but the \<^verbatim>\<open>hostname\<close> command exits with 127. The identity check is run without
  \<^verbatim>\<open>warn=True\<close>, so \<^verbatim>\<open>fabconn.run\<close> raises \<^verbatim>\<open>UnexpectedExit\<close>; nothing catches it
  and the process ends with status 1, not 0.
\<close>

theorem main_hostname_failure_status:
  "map_sum exit_status id (fst (main env_no_hostname [''./rt.py'', ''check_vms''] world0)) = Inl 1"
  by code_simp

section \<open>The sanity check\<close>

text \<open>
  The replies recorded for a command line on a host tell how often \<^verbatim>\<open>cmd_to_vm\<close> ran
  it there for its caller: a call adds one reply, for its own command on the host of its
  VM, when it returns, and none otherwise. Nothing in the script takes text out of the
  log file.
\<close>

lemma host_replies_log [simp]: "host_replies h c (log e m w) = host_replies h c w"
  by (simp add: host_replies_def)

lemma host_replies_ssh_logging [simp]: "host_replies h c (ssh_logging e w) = host_replies h c w"
  by (simp add: host_replies_def)



lemma ssh_logging_grows: "\<exists>x. logfile (ssh_logging e w) = logfile w @ x"
  by (simp add: ssh_logging_def)









lemma and_then_return: "and_then m (\<lambda>v w. (Inr v, w)) = m"
  by (rule ext) (simp add: and_then_def split: prod.splits sum.splits)

lemma and_then_return_unit: "and_then m (\<lambda>v. Pair (Inr ())) = m"
  using and_then_return [of m] by simp















subsection \<open>The whole check\<close>



lemma startup_config:
  "startup_and_config_general e argv w = (Inr rt_config, w') \<Longrightarrow> rt_config = the_config"
  by (auto simp: startup_and_config_general_def and_then_def die_def the_config_def VM_INFO_def
      dict_set_def Let_def split: list.splits if_splits prod.splits sum.splits)












end
